theory Spec2Isabelle
  imports Main
begin

section \<open>Values, exceptions and calendar dates\<close>

text \<open>
  The models module (\<^verbatim>\<open>service/models.py\<close>) exchanges records with its callers as plain
  Python values: the argument of \<^verbatim>\<open>deserialize\<close> is whatever the request body decoded to.
  A dictionary keeps its items in insertion order and is looked up by key, so it is an
  association list read with \<open>map_of\<close>.
\<close>

datatype pyval =
    PNone
  | PBool bool
  | PInt int
  | PStr string
  | PList "pyval list"
  | PDict "(string \<times> pyval) list"

text \<open>
  The exceptions that the module raises or lets through. \<open>KeyError\<close> carries the key and
  \<open>TypeError\<close>, \<open>AttributeError\<close> and \<open>DataValidationError\<close> carry their message
  (\<^verbatim>\<open>error.args[0]\<close>). The message of a \<open>ValueError\<close> is never read by the module and is
  left out.
\<close>

datatype exn =
    DataValidationError string
  | KeyError string
  | TypeError string
  | ValueError
  | AttributeError string
  | InvalidOperation
  | IntegrityError
  | InvalidRequestError

text \<open>Python's truth value of an object, as tested by \<^verbatim>\<open>if date_joined:\<close>.\<close>

fun truthy :: "pyval \<Rightarrow> bool" where
  "truthy PNone = False"
| "truthy (PBool b) = b"
| "truthy (PInt i) = (i \<noteq> 0)"
| "truthy (PStr s) = (s \<noteq> [])"
| "truthy (PList xs) = (xs \<noteq> [])"
| "truthy (PDict kvs) = (kvs \<noteq> [])"

text \<open>
  Subscription \<^verbatim>\<open>data[key]\<close> with a string key. Only a dictionary can be subscripted by a
  string: a missing key raises \<open>KeyError\<close> with the key, every other kind of value raises
  \<open>TypeError\<close> with the interpreter's message for that type.
\<close>

fun type_name :: "pyval \<Rightarrow> string" where
  "type_name PNone = ''NoneType''"
| "type_name (PBool b) = ''bool''"
| "type_name (PInt i) = ''int''"
| "type_name (PStr s) = ''str''"
| "type_name (PList xs) = ''list''"
| "type_name (PDict kvs) = ''dict''"

definition apostrophe :: string where
  "apostrophe = [CHR 0x27]"

definition not_subscriptable :: "pyval \<Rightarrow> string" where
  "not_subscriptable v = apostrophe @ type_name v @ apostrophe @ '' object is not subscriptable''"

definition no_attribute :: "pyval \<Rightarrow> string \<Rightarrow> string" where
  "no_attribute v a =
     apostrophe @ type_name v @ apostrophe @ '' object has no attribute '' @
     apostrophe @ a @ apostrophe"

fun getitem :: "pyval \<Rightarrow> string \<Rightarrow> exn + pyval" where
  "getitem (PDict kvs) k = (case map_of kvs k of None \<Rightarrow> Inl (KeyError k) | Some v \<Rightarrow> Inr v)"
| "getitem (PList xs) k = Inl (TypeError ''list indices must be integers or slices, not str'')"
| "getitem (PStr s) k = Inl (TypeError ''string indices must be integers'')"
| "getitem v k = Inl (TypeError (not_subscriptable v))"

text \<open>
  The method call \<^verbatim>\<open>data.get(key)\<close>: on a dictionary the value or \<^verbatim>\<open>None\<close>; the other kinds
  of value have no such method.
\<close>

fun get :: "pyval \<Rightarrow> string \<Rightarrow> exn + pyval" where
  "get (PDict kvs) k = (case map_of kvs k of None \<Rightarrow> Inr PNone | Some v \<Rightarrow> Inr v)"
| "get v k = Inl (AttributeError (no_attribute v ''get''))"

subsection \<open>\<^verbatim>\<open>datetime.date\<close>\<close>

record date =
  year :: nat
  month :: nat
  day :: nat

definition is_leap :: "nat \<Rightarrow> bool" where
  "is_leap y = (y mod 4 = 0 \<and> (y mod 100 \<noteq> 0 \<or> y mod 400 = 0))"

definition days_in_month :: "nat \<Rightarrow> nat \<Rightarrow> nat" where
  "days_in_month y m =
     (if m = 2 then (if is_leap y then 29 else 28)
      else if m = 4 \<or> m = 6 \<or> m = 9 \<or> m = 11 then 30 else 31)"

text \<open>The values that a \<^verbatim>\<open>date\<close> object can hold: the constructor refuses all others.\<close>

definition valid_date :: "date \<Rightarrow> bool" where
  "valid_date d =
     (1 \<le> year d \<and> year d \<le> 9999 \<and> 1 \<le> month d \<and> month d \<le> 12 \<and>
      1 \<le> day d \<and> day d \<le> days_in_month (year d) (month d))"

definition digit :: "nat \<Rightarrow> char" where
  "digit n = char_of (48 + n mod 10)"

fun digits_of :: "nat \<Rightarrow> string" where
  "digits_of n = (if n < 10 then [digit n] else digits_of (n div 10) @ [digit n])"

declare digits_of.simps [simp del]

definition zfill :: "nat \<Rightarrow> string \<Rightarrow> string" where
  "zfill w s = replicate (w - length s) (CHR ''0'') @ s"

text \<open>\<^verbatim>\<open>date.isoformat()\<close>, that is \<^verbatim>\<open>"%04d-%02d-%02d" % (year, month, day)\<close>.\<close>

definition isoformat :: "date \<Rightarrow> string" where
  "isoformat d =
     zfill 4 (digits_of (year d)) @ ''-'' @ zfill 2 (digits_of (month d)) @ ''-'' @
     zfill 2 (digits_of (day d))"

definition is_digit :: "char \<Rightarrow> bool" where
  "is_digit c = (48 \<le> (of_char c :: nat) \<and> (of_char c :: nat) \<le> 57)"

definition digit_value :: "char \<Rightarrow> nat" where
  "digit_value c = of_char c - 48"

definition number_of :: "string \<Rightarrow> nat" where
  "number_of s = foldl (\<lambda>acc c. 10 * acc + digit_value c) 0 s"

text \<open>
  \<^verbatim>\<open>date.fromisoformat\<close> for the format that \<^verbatim>\<open>isoformat\<close> writes, \<^verbatim>\<open>YYYY-MM-DD\<close>: four, two
  and two decimal digits with a hyphen after the year and after the month, naming a day
  that exists. An argument that is not a string is a \<open>TypeError\<close>; a string of any other
  shape is a \<open>ValueError\<close> (the further ISO 8601 shapes that interpreters from 3.11 on
  read as well are not part of this model).
\<close>

definition parse_isoformat_date :: "string \<Rightarrow> exn + date" where
  "parse_isoformat_date s =
     (if length s = 10 \<and> s ! 4 = CHR ''-'' \<and> s ! 7 = CHR ''-'' \<and>
         list_all is_digit (take 4 s) \<and> list_all is_digit (take 2 (drop 5 s)) \<and>
         list_all is_digit (take 2 (drop 8 s))
      then
        (let d = \<lparr>year = number_of (take 4 s), month = number_of (take 2 (drop 5 s)),
                  day = number_of (take 2 (drop 8 s))\<rparr>
         in if valid_date d then Inr d else Inl ValueError)
      else Inl ValueError)"

fun fromisoformat :: "pyval \<Rightarrow> exn + date" where
  "fromisoformat (PStr s) = parse_isoformat_date s"
| "fromisoformat v = Inl (TypeError ''fromisoformat: argument must be str'')"

text \<open>The shape \<^verbatim>\<open>YYYY-MM-DD\<close> of an ISO 8601 calendar date.\<close>

definition iso_date_shape :: "string \<Rightarrow> bool" where
  "iso_date_shape s =
     (length s = 10 \<and> s ! 4 = CHR ''-'' \<and> s ! 7 = CHR ''-'' \<and>
      list_all is_digit (take 4 s) \<and> list_all is_digit (take 2 (drop 5 s)) \<and>
      list_all is_digit (take 2 (drop 8 s)))"

section \<open>The Account model\<close>

text \<open>
  An \<^verbatim>\<open>Account\<close> object. \<^verbatim>\<open>id\<close> is \<^verbatim>\<open>None\<close> until the store assigns a key. The attributes
  \<^verbatim>\<open>name\<close>, \<^verbatim>\<open>email\<close>, \<^verbatim>\<open>address\<close> and \<^verbatim>\<open>phone_number\<close> hold whatever value was assigned:
  \<^verbatim>\<open>deserialize\<close> copies them from the input without looking at their type.
  \<^verbatim>\<open>date_joined\<close> is a \<^verbatim>\<open>date\<close> or \<^verbatim>\<open>None\<close>.
\<close>

record account =
  account_id :: "int option"
  name :: pyval
  email :: pyval
  address :: pyval
  phone_number :: pyval
  date_joined :: "date option"

text \<open>\<^verbatim>\<open>Account()\<close>: a new object, no attribute set.\<close>

definition Account :: account where
  "Account = \<lparr>account_id = None, name = PNone, email = PNone, address = PNone,
              phone_number = PNone, date_joined = None\<rparr>"

text \<open>
  \<^verbatim>\<open>Account.serialize\<close>. The dictionary display evaluates its items in order; the only one that
  can fail is the last, \<^verbatim>\<open>self.date_joined.isoformat()\<close>, when \<^verbatim>\<open>date_joined\<close> is \<^verbatim>\<open>None\<close>.
  The object is not changed, so the result is the only effect.
\<close>

definition serialize :: "account \<Rightarrow> exn + (string \<times> pyval) list" where
  "serialize self =
     (case date_joined self of
        None \<Rightarrow> Inl (AttributeError (no_attribute PNone ''isoformat''))
      | Some d \<Rightarrow>
          Inr [(''id'', case account_id self of None \<Rightarrow> PNone | Some i \<Rightarrow> PInt i),
               (''name'', name self),
               (''email'', email self),
               (''address'', address self),
               (''phone_number'', phone_number self),
               (''date_joined'', PStr (isoformat d))])"

text \<open>
  The body of the \<^verbatim>\<open>try\<close> block of \<^verbatim>\<open>Account.deserialize\<close>. Each assignment changes the
  object at once, so the result is the exception that left the block, if any, together
  with the object as the block left it. \<open>today\<close> is what \<^verbatim>\<open>date.today()\<close> returns during
  the call.
\<close>

definition deserialize_try :: "date \<Rightarrow> account \<Rightarrow> pyval \<Rightarrow> exn option \<times> account" where
  "deserialize_try today self data =
     (case getitem data ''name'' of
        Inl e \<Rightarrow> (Some e, self)
      | Inr v1 \<Rightarrow>
         (let self1 = self\<lparr>name := v1\<rparr> in
          (case getitem data ''email'' of
             Inl e \<Rightarrow> (Some e, self1)
           | Inr v2 \<Rightarrow>
              (let self2 = self1\<lparr>email := v2\<rparr> in
               (case getitem data ''address'' of
                  Inl e \<Rightarrow> (Some e, self2)
                | Inr v3 \<Rightarrow>
                   (let self3 = self2\<lparr>address := v3\<rparr> in
                    (case get data ''phone_number'' of
                       Inl e \<Rightarrow> (Some e, self3)
                     | Inr v4 \<Rightarrow>
                        (let self4 = self3\<lparr>phone_number := v4\<rparr> in
                         (case get data ''date_joined'' of
                            Inl e \<Rightarrow> (Some e, self4)
                          | Inr v5 \<Rightarrow>
                             (if truthy v5 then
                                (case fromisoformat v5 of
                                   Inl e \<Rightarrow> (Some e, self4)
                                 | Inr d \<Rightarrow> (None, self4\<lparr>date_joined := Some d\<rparr>))
                              else (None, self4\<lparr>date_joined := Some today\<rparr>)))))))))))"

text \<open>
  \<^verbatim>\<open>Account.deserialize\<close>: the two \<^verbatim>\<open>except\<close> clauses turn a \<open>KeyError\<close> and a \<open>TypeError\<close>
  into a \<open>DataValidationError\<close>; every other exception passes through. The first
  component is the exception raised, or \<open>None\<close> when the method returns; the second is the
  object afterwards, which is also the value returned (\<^verbatim>\<open>return self\<close>).
\<close>

definition deserialize :: "date \<Rightarrow> account \<Rightarrow> pyval \<Rightarrow> exn option \<times> account" where
  "deserialize today self data =
     (case deserialize_try today self data of
        (Some (KeyError k), self') \<Rightarrow>
          (Some (DataValidationError (''Invalid Account: missing '' @ k)), self')
      | (Some (TypeError m), self') \<Rightarrow>
          (Some (DataValidationError
             (''Invalid Account: body of request contained bad or no data - '' @ m)), self')
      | r \<Rightarrow> r)"

text \<open>A mapping, as opposed to every other kind of value that a request body can decode to.\<close>

fun is_mapping :: "pyval \<Rightarrow> bool" where
  "is_mapping (PDict kvs) = True"
| "is_mapping v = False"

section \<open>The store and the persistence methods\<close>

text \<open>
  The class body of \<^verbatim>\<open>Account\<close> runs once, when the module is imported. The column
  \<^verbatim>\<open>date_joined\<close> is declared with \<^verbatim>\<open>default=date.today()\<close>: the call is made at that moment
  and the column keeps its result, a fixed date, as the default. \<open>today\<close> is what
  \<^verbatim>\<open>date.today()\<close> returns during the import.
\<close>

record schema =
  date_joined_default :: date

definition import_models :: "date \<Rightarrow> schema" where
  "import_models today = \<lparr>date_joined_default = today\<rparr>"

text \<open>
  Modelled from the spec: the store behind \<^verbatim>\<open>db.session\<close> and \<^verbatim>\<open>cls.query\<close> (the SQLAlchemy
  session and the database) is not part of the module, which only calls it. The
  specification describes it as a collaborator that inserts a row and assigns its key,
  deletes a row by key, selects all rows, and selects a row by key or reports that there
  is none. Here it is the committed rows of the table, in the order of their insertion,
  and the next value of the key sequence: a row inserted without a key takes that value, a
  row inserted with a key keeps it and is refused when the key is taken, a column left
  \<^verbatim>\<open>None\<close> takes the default its declaration gives, and after the commit the object shows
  the row as stored. Constraint checks on the other columns are not modelled, and neither
  is the session's record of which objects it already holds.
\<close>

record store =
  rows :: "account list"
  next_id :: int

definition empty_store :: store where
  "empty_store = \<lparr>rows = [], next_id = 1\<rparr>"

definition has_key :: "store \<Rightarrow> int \<Rightarrow> bool" where
  "has_key db i = list_ex (\<lambda>r. account_id r = Some i) (rows db)"

text \<open>\<^verbatim>\<open>db.session.add(obj); db.session.commit()\<close> for an object the session does not hold yet.\<close>

definition session_add_commit :: "schema \<Rightarrow> store \<Rightarrow> account \<Rightarrow> exn + store \<times> account" where
  "session_add_commit sch db obj =
     (let filled =
            (case date_joined obj of
               None \<Rightarrow> obj\<lparr>date_joined := Some (date_joined_default sch)\<rparr>
             | Some d \<Rightarrow> obj)
      in case account_id obj of
           None \<Rightarrow>
             (let row = filled\<lparr>account_id := Some (next_id db)\<rparr>
              in Inr (db\<lparr>rows := rows db @ [row], next_id := next_id db + 1\<rparr>, row))
         | Some i \<Rightarrow>
             if has_key db i then Inl IntegrityError
             else Inr (db\<lparr>rows := rows db @ [filled]\<rparr>, filled))"

text \<open>
  \<^verbatim>\<open>PersistentBase.create\<close>: \<^verbatim>\<open>self.id = None\<close>, then add and commit. The result is the store
  and the object after the commit.
\<close>

definition create :: "schema \<Rightarrow> store \<Rightarrow> account \<Rightarrow> exn + store \<times> account" where
  "create sch db self = session_add_commit sch db (self\<lparr>account_id := None\<rparr>)"

text \<open>
  \<^verbatim>\<open>PersistentBase.delete\<close>: \<^verbatim>\<open>db.session.delete(self)\<close> and commit. The session refuses an
  object that was never stored; otherwise the row with the object's key is removed.
\<close>

definition delete :: "store \<Rightarrow> account \<Rightarrow> exn + store" where
  "delete db self =
     (case account_id self of
        None \<Rightarrow> Inl InvalidRequestError
      | Some i \<Rightarrow> Inr (db\<lparr>rows := filter (\<lambda>r. account_id r \<noteq> Some i) (rows db)\<rparr>))"

text \<open>\<^verbatim>\<open>PersistentBase.all\<close>: \<^verbatim>\<open>cls.query.all()\<close>, every row of the table.\<close>

definition all_records :: "store \<Rightarrow> account list" where
  "all_records db = rows db"

text \<open>
  \<^verbatim>\<open>PersistentBase.find\<close>: \<^verbatim>\<open>cls.query.get(by_id)\<close>, the row with that key or \<^verbatim>\<open>None\<close>.
\<close>

definition find_record :: "store \<Rightarrow> int \<Rightarrow> account option" where
  "find_record db by_id = List.find (\<lambda>r. account_id r = Some by_id) (rows db)"

text \<open>
  What holds of every store that the methods above produce from the empty one: every row
  has a key below the next value of the sequence, no key occurs twice, and no row lacks
  its \<^verbatim>\<open>date_joined\<close> (the column is declared \<^verbatim>\<open>nullable=False\<close>).
\<close>

definition store_inv :: "store \<Rightarrow> bool" where
  "store_inv db =
     (list_all (\<lambda>r. case account_id r of None \<Rightarrow> False | Some i \<Rightarrow> i < next_id db) (rows db) \<and>
      distinct (map account_id (rows db)) \<and>
      list_all (\<lambda>r. date_joined r \<noteq> None) (rows db))"

section \<open>Products and the price query\<close>

text \<open>
  A string is a list of characters, each a code point below 256: the text of a price is
  ASCII, and the two other characters that Python counts as white space in that range
  (U+0085 and U+00A0) are covered. Code points from 256 on are outside the model.
\<close>

text \<open>
  A finite \<^verbatim>\<open>decimal.Decimal\<close>: sign, coefficient and exponent, standing for
  \<open>\<plusminus> coefficient \<times> 10\<^sup>e\<close>. Two decimals are equal when they stand for the same number,
  whatever their exponents: \<^verbatim>\<open>Decimal("12.50") == Decimal("12.5")\<close>.
\<close>

datatype decimal = Dec (dec_sign: bool) (dec_coeff: nat) (dec_exp: int)

definition dec_signed :: "decimal \<Rightarrow> int" where
  "dec_signed d = (if dec_sign d then - int (dec_coeff d) else int (dec_coeff d))"

definition dec_eq :: "decimal \<Rightarrow> decimal \<Rightarrow> bool" where
  "dec_eq a b =
     (let e = min (dec_exp a) (dec_exp b)
      in dec_signed a * 10 ^ nat (dec_exp a - e) = dec_signed b * 10 ^ nat (dec_exp b - e))"

text \<open>
  What the constructor \<^verbatim>\<open>Decimal\<close> can return: a finite decimal, an infinity with its sign,
  or a NaN with its sign, whether it is signaling, and its payload (the diagnostic digits
  as a number, 0 when there are none).
\<close>

datatype decimal_value =
    Finite decimal
  | Infinite bool
  | NotANumber bool bool nat

text \<open>
  \<^verbatim>\<open>str.strip\<close>: \<open>strip P s\<close> drops from both ends of \<open>s\<close> the characters that satisfy \<open>P\<close>.
  With no argument Python strips white space: \<open>is_space\<close> is \<^verbatim>\<open>str.isspace\<close> on one
  character.
\<close>

definition strip :: "(char \<Rightarrow> bool) \<Rightarrow> string \<Rightarrow> string" where
  "strip P s = rev (dropWhile P (rev (dropWhile P s)))"

definition is_space :: "char \<Rightarrow> bool" where
  "is_space c =
     (let n = (of_char c :: nat)
      in (9 \<le> n \<and> n \<le> 13) \<or> (28 \<le> n \<and> n \<le> 32) \<or> n = 133 \<or> n = 160)"

definition split_sign :: "string \<Rightarrow> bool \<times> string" where
  "split_sign s =
     (case s of
        [] \<Rightarrow> (False, [])
      | c # t \<Rightarrow> if c = CHR ''-'' then (True, t) else if c = CHR ''+'' then (False, t)
                 else (False, s))"

text \<open>The exponent part of a numeric string: nothing, or \<^verbatim>\<open>E\<close> (either case), an optional sign
  and at least one digit.\<close>

definition parse_exponent :: "string \<Rightarrow> int option" where
  "parse_exponent s =
     (case s of
        [] \<Rightarrow> Some 0
      | c # t \<Rightarrow>
          if c = CHR ''E'' \<or> c = CHR ''e'' then
            (let (neg, ds) = split_sign t
             in if ds \<noteq> [] \<and> list_all is_digit ds
                then Some (if neg then - int (number_of ds) else int (number_of ds))
                else None)
          else None)"

text \<open>
  A number after the sign: digits with an optional fractional part, at least one digit in
  all, and an optional exponent.
\<close>

definition parse_number :: "bool \<Rightarrow> string \<Rightarrow> decimal option" where
  "parse_number neg body =
     (let ip = takeWhile is_digit body;
          r1 = dropWhile is_digit body;
          (fp, r2) =
            (case r1 of
               [] \<Rightarrow> ([], [])
             | c # u \<Rightarrow> if c = CHR ''.'' then (takeWhile is_digit u, dropWhile is_digit u)
                        else ([], r1))
      in if ip = [] \<and> fp = [] then None
         else (case parse_exponent r2 of
                 None \<Rightarrow> None
               | Some e \<Rightarrow> Some (Dec neg (number_of (ip @ fp)) (e - int (length fp)))))"

text \<open>
  A special value after the sign, in any mix of upper and lower case: \<^verbatim>\<open>Inf\<close> or
  \<^verbatim>\<open>Infinity\<close>, or \<^verbatim>\<open>NaN\<close> or \<^verbatim>\<open>sNaN\<close> followed by any number of digits.
\<close>

definition lower :: "char \<Rightarrow> char" where
  "lower c =
     (let n = (of_char c :: nat) in if 65 \<le> n \<and> n \<le> 90 then char_of (n + 32) else c)"

definition parse_special :: "bool \<Rightarrow> string \<Rightarrow> decimal_value option" where
  "parse_special neg body =
     (let lb = map lower body
      in if lb = ''inf'' \<or> lb = ''infinity'' then Some (Infinite neg)
         else if take 3 lb = ''nan'' \<and> list_all is_digit (drop 3 body)
           then Some (NotANumber neg False (number_of (drop 3 body)))
         else if take 4 lb = ''snan'' \<and> list_all is_digit (drop 4 body)
           then Some (NotANumber neg True (number_of (drop 4 body)))
         else None)"

text \<open>
  \<^verbatim>\<open>Decimal(s)\<close> for a string: white space at the ends and all underscores are dropped, then
  the string must be an optional sign followed by a number or a special value. Anything
  else raises \<open>InvalidOperation\<close>.
\<close>

definition Decimal :: "string \<Rightarrow> exn + decimal_value" where
  "Decimal s =
     (let t = filter (\<lambda>c. c \<noteq> CHR ''_'') (strip is_space s);
          (neg, body) = split_sign t
      in (case parse_special neg body of
            Some v \<Rightarrow> Inr v
          | None \<Rightarrow>
             (case parse_number neg body of
                Some d \<Rightarrow> Inr (Finite d)
              | None \<Rightarrow> Inl InvalidOperation)))"

text \<open>
  Modelled from the spec: the declaration of the class \<^verbatim>\<open>Product\<close> (its columns) is not in
  the module as given, only its class methods are. The columns are those of the data model
  of the specification, where a price is an exact fixed-point decimal, that is a number;
  the members of the category enumeration are not needed and stay a type parameter.
\<close>

record 'c product =
  product_id :: "int option"
  product_name :: string
  description :: string
  price :: decimal
  available :: bool
  category :: 'c

text \<open>The argument of \<^verbatim>\<open>find_by_price\<close>: a \<^verbatim>\<open>Decimal\<close> or a \<^verbatim>\<open>str\<close>.\<close>

datatype price_arg = AsDecimal decimal_value | AsStr string

text \<open>The characters of \<^verbatim>\<open>' "'\<close>, the argument of \<^verbatim>\<open>strip\<close> in \<^verbatim>\<open>find_by_price\<close>: the space and
  the double quote.\<close>

definition space_or_quote :: "char \<Rightarrow> bool" where
  "space_or_quote c = (c = CHR '' '' \<or> c = CHR 0x22)"

text \<open>
  The comparison \<^verbatim>\<open>cls.price == price_value\<close> of the query: a stored price, which is a
  number, equals a finite value that stands for the same number, and equals neither an
  infinity nor a NaN.
\<close>

fun price_equals :: "decimal \<Rightarrow> decimal_value \<Rightarrow> bool" where
  "price_equals p (Finite d) = dec_eq p d"
| "price_equals p (Infinite neg) = False"
| "price_equals p (NotANumber neg sig payload) = False"

text \<open>
  \<^verbatim>\<open>Product.find_by_price\<close>: a string argument is stripped and converted, then the query
  selects the rows of the table whose price equals the value.
\<close>

definition find_by_price :: "'c product list \<Rightarrow> price_arg \<Rightarrow> exn + 'c product list" where
  "find_by_price table arg =
     (case arg of
        AsStr s \<Rightarrow>
          (case Decimal (strip space_or_quote s) of
             Inl e \<Rightarrow> Inl e
           | Inr price_value \<Rightarrow> Inr (filter (\<lambda>p. price_equals (price p) price_value) table))
      | AsDecimal price_value \<Rightarrow>
          Inr (filter (\<lambda>p. price_equals (price p) price_value) table))"

section \<open>Example values\<close>

definition new_year :: date where
  "new_year = \<lparr>year = 2024, month = 1, day = 1\<rparr>"

definition ann :: account where
  "ann = \<lparr>account_id = None, name = PStr ''Ann'', email = PStr ''ann@example.com'',
          address = PStr ''1 Main St'', phone_number = PNone, date_joined = None\<rparr>"

definition ann_row :: account where
  "ann_row = ann\<lparr>account_id := Some 1, date_joined := Some new_year\<rparr>"

definition ann_store :: store where
  "ann_store = \<lparr>rows = [ann_row], next_id = 2\<rparr>"

definition hats :: "unit product list" where
  "hats =
     [\<lparr>product_id = Some 1, product_name = ''Fedora'', description = ''A red hat'',
       price = Dec False 125 (- 1), available = True, category = ()\<rparr>,
      \<lparr>product_id = Some 2, product_name = ''Cap'', description = ''A blue cap'',
       price = Dec False 13 0, available = True, category = ()\<rparr>]"

section \<open>Deserialization errors\<close>

text \<open>
  C3. When the input mapping lacks one of the required keys \<^verbatim>\<open>name\<close>, \<^verbatim>\<open>email\<close>,
  \<^verbatim>\<open>address\<close>, \<^verbatim>\<open>Account.deserialize\<close> raises \<open>DataValidationError\<close> and the message ends
  with the missing key, the first one in the order in which the keys are read; for the
  empty mapping that key is \<^verbatim>\<open>name\<close>.
\<close>

theorem deserialize_missing_key:
  assumes "map_of kvs ''name'' = None \<or> map_of kvs ''email'' = None \<or>
           map_of kvs ''address'' = None"
  shows "fst (deserialize today self (PDict kvs)) =
           Some (DataValidationError (''Invalid Account: missing '' @
             (if map_of kvs ''name'' = None then ''name''
              else if map_of kvs ''email'' = None then ''email'' else ''address'')))
         \<and> fst (deserialize today self (PDict [])) =
           Some (DataValidationError ''Invalid Account: missing name'')"
  using assms
  by (auto simp: deserialize_def deserialize_try_def Let_def split: option.splits)

theorem deserialize_missing_key_witness:
  "map_of [(''name'', PStr ''Ann''), (''address'', PStr ''1 Main St'')] ''email'' = None \<and>
   fst (deserialize \<lparr>year = 2024, month = 2, day = 9\<rparr> Account
         (PDict [(''name'', PStr ''Ann''), (''address'', PStr ''1 Main St'')])) =
     Some (DataValidationError ''Invalid Account: missing email'')"
  using deserialize_missing_key
          [of "[(''name'', PStr ''Ann''), (''address'', PStr ''1 Main St'')]"
              "\<lparr>year = 2024, month = 2, day = 9\<rparr>" Account]
  by simp

text \<open>
  C4. When the input is not a mapping, the first subscription \<^verbatim>\<open>data["name"]\<close> raises a
  \<open>TypeError\<close>, and \<^verbatim>\<open>Account.deserialize\<close> raises \<open>DataValidationError\<close> whose message is
  the bad-data text followed by the message of that \<open>TypeError\<close>. The object is as it was.
\<close>

theorem deserialize_not_a_mapping:
  assumes "\<not> is_mapping data"
  shows "\<exists>m. getitem data ''name'' = Inl (TypeError m) \<and>
           deserialize today self data =
             (Some (DataValidationError
                (''Invalid Account: body of request contained bad or no data - '' @ m)), self)"
  using assms by (cases data) (auto simp: deserialize_def deserialize_try_def)

theorem deserialize_not_a_mapping_witness:
  "\<not> is_mapping (PList []) \<and>
   deserialize \<lparr>year = 2024, month = 2, day = 9\<rparr> Account (PList []) =
     (Some (DataValidationError
        (''Invalid Account: body of request contained bad or no data - '' @
         ''list indices must be integers or slices, not str'')), Account)"
  using deserialize_not_a_mapping [of "PList []" "\<lparr>year = 2024, month = 2, day = 9\<rparr>" Account]
  by simp

text \<open>
  C10. When \<^verbatim>\<open>Account.deserialize\<close> raises because \<^verbatim>\<open>email\<close> or \<^verbatim>\<open>address\<close> is missing, the
  attributes assigned before the missing key keep their new values: with \<^verbatim>\<open>name\<close> present and
  \<^verbatim>\<open>email\<close> missing the object is left with the new name, and with only \<^verbatim>\<open>address\<close> missing
  it is left with the new name and email. Nothing restores the earlier values.
\<close>

theorem deserialize_error_keeps_assignments:
  assumes "map_of kvs ''name'' = Some n"
      and "map_of kvs ''email'' = None \<or> map_of kvs ''address'' = None"
  shows "deserialize today self (PDict kvs) =
           (if map_of kvs ''email'' = None
            then (Some (DataValidationError ''Invalid Account: missing email''),
                  self\<lparr>name := n\<rparr>)
            else (Some (DataValidationError ''Invalid Account: missing address''),
                  self\<lparr>name := n, email := the (map_of kvs ''email'')\<rparr>))"
  using assms
  by (auto simp: deserialize_def deserialize_try_def Let_def split: option.splits)

theorem deserialize_error_keeps_assignments_witness:
  "map_of [(''name'', PStr ''Ann'')] ''name'' = Some (PStr ''Ann'') \<and>
   map_of [(''name'', PStr ''Ann'')] ''email'' = None \<and>
   deserialize \<lparr>year = 2024, month = 2, day = 9\<rparr> Account (PDict [(''name'', PStr ''Ann'')]) =
     (Some (DataValidationError ''Invalid Account: missing email''),
      Account\<lparr>name := PStr ''Ann''\<rparr>) \<and>
   name (Account\<lparr>name := PStr ''Ann''\<rparr>) \<noteq> name Account"
  using deserialize_error_keeps_assignments
          [of "[(''name'', PStr ''Ann'')]" "PStr ''Ann''"
              "\<lparr>year = 2024, month = 2, day = 9\<rparr>" Account]
  by (simp add: Account_def)

section \<open>The store: create, find, delete\<close>

lemma store_inv_iff:
  "store_inv db \<longleftrightarrow>
     (\<forall>r \<in> set (rows db). \<exists>i. account_id r = Some i \<and> i < next_id db) \<and>
     distinct (map account_id (rows db)) \<and>
     (\<forall>r \<in> set (rows db). \<exists>d. date_joined r = Some d)"
  by (auto simp: store_inv_def list_all_iff split: option.splits)

lemma has_key_iff: "has_key db i \<longleftrightarrow> (\<exists>r \<in> set (rows db). account_id r = Some i)"
  by (simp add: has_key_def list_ex_iff)

lemma find_app:
  "List.find P (xs @ ys) =
     (case List.find P xs of None \<Rightarrow> List.find P ys | Some x \<Rightarrow> Some x)"
  by (induction xs) auto

lemma find_filter_other:
  "j \<noteq> i \<Longrightarrow>
   List.find (\<lambda>r. f r = Some j) (filter (\<lambda>r. f r \<noteq> Some i) xs) =
   List.find (\<lambda>r. f r = Some j) xs"
  by (induction xs) auto

lemma find_record_None_iff: "find_record db i = None \<longleftrightarrow> \<not> has_key db i"
  by (auto simp: find_record_def has_key_iff find_None_iff)

lemma find_record_append:
  "find_record (db\<lparr>rows := rows db @ [r], next_id := n\<rparr>) j =
     (case find_record db j of
        None \<Rightarrow> if account_id r = Some j then Some r else None
      | Some x \<Rightarrow> Some x)"
  by (simp add: find_record_def find_app split: option.splits)

lemma find_record_key:
  "find_record db j = Some r \<Longrightarrow> account_id r = Some j \<and> r \<in> set (rows db)"
  by (auto simp: find_record_def find_Some_iff)

lemma store_inv_no_next: "store_inv db \<Longrightarrow> \<not> has_key db (next_id db)"
  by (fastforce simp: store_inv_iff has_key_iff)

text \<open>What \<^verbatim>\<open>create\<close> comes to: it cannot fail, whatever \<^verbatim>\<open>id\<close> the object came with.\<close>

lemma create_eq:
  "create sch db a =
     Inr (db\<lparr>rows := rows db @
                 [a\<lparr>account_id := Some (next_id db),
                    date_joined := Some (case date_joined a of
                                           None \<Rightarrow> date_joined_default sch | Some d \<Rightarrow> d)\<rparr>],
             next_id := next_id db + 1\<rparr>,
          a\<lparr>account_id := Some (next_id db),
            date_joined := Some (case date_joined a of
                                   None \<Rightarrow> date_joined_default sch | Some d \<Rightarrow> d)\<rparr>)"
  by (simp add: create_def session_add_commit_def Let_def split: option.splits)

text \<open>The invariant holds of the empty store and is kept by \<^verbatim>\<open>create\<close> and \<^verbatim>\<open>delete\<close>.\<close>

lemma store_inv_empty: "store_inv empty_store"
  by (simp add: store_inv_def empty_store_def)

lemma store_inv_create:
  assumes "store_inv db" and "create sch db a = Inr (db', a')"
  shows "store_inv db'"
proof -
  have nk: "\<forall>r \<in> set (rows db). account_id r \<noteq> Some (next_id db)"
    using store_inv_no_next[OF assms(1)] by (simp add: has_key_iff)
  from assms(2) have db': "db' = db\<lparr>rows := rows db @ [a'], next_id := next_id db + 1\<rparr>"
    and a': "account_id a' = Some (next_id db)" "date_joined a' \<noteq> None"
    by (auto simp: create_eq)
  show ?thesis using assms(1) nk a' unfolding db' store_inv_iff
    by (fastforce simp: image_iff)
qed

lemma store_inv_delete:
  assumes "store_inv db" and "delete db a = Inr db'"
  shows "store_inv db'"
  using assms
  by (auto simp: delete_def store_inv_iff distinct_map_filter split: option.splits)

lemma store_inv_ann_store: "store_inv ann_store"
  by (simp add: store_inv_def ann_store_def ann_row_def ann_def)

text \<open>
  C1. \<^verbatim>\<open>create\<close> clears the \<^verbatim>\<open>id\<close> before it adds the object, so the outcome does not
  depend on the \<^verbatim>\<open>id\<close> the object came with: it always succeeds as an insertion. The new
  row goes after the rows that were there, which all stay as they were and are found
  under their keys as before, and the key the store assigns is one that no row had.
\<close>

theorem create_always_inserts:
  assumes "store_inv db"
  shows "\<exists>db' a'. create sch db self = Inr (db', a') \<and>
           create sch db self = create sch db (self\<lparr>account_id := None\<rparr>) \<and>
           account_id a' = Some (next_id db) \<and> \<not> has_key db (next_id db) \<and>
           all_records db' = all_records db @ [a'] \<and>
           (\<forall>j. j \<noteq> next_id db \<longrightarrow> find_record db' j = find_record db j)"
proof -
  have "\<not> has_key db (next_id db)" using assms by (rule store_inv_no_next)
  moreover have "create sch db self = create sch db (self\<lparr>account_id := None\<rparr>)"
    by (simp add: create_def)
  ultimately show ?thesis
    by (simp add: create_eq all_records_def find_record_append split: option.splits)
qed

text \<open>
  The witness: the store holds one row under key 1 and the object comes with that very
  key. A plain add would be refused; \<^verbatim>\<open>create\<close> inserts a second row under key 2.
\<close>

theorem create_always_inserts_witness:
  "store_inv ann_store \<and>
   session_add_commit (import_models new_year) ann_store (ann\<lparr>account_id := Some 1\<rparr>) =
     Inl IntegrityError \<and>
   (\<exists>db' a'. create (import_models new_year) ann_store (ann\<lparr>account_id := Some 1\<rparr>) =
                Inr (db', a') \<and>
              account_id a' = Some 2 \<and> all_records db' = [ann_row, a'] \<and>
              find_record db' 1 = Some ann_row)"
proof -
  have inv: "store_inv ann_store" by (rule store_inv_ann_store)
  have refused:
    "session_add_commit (import_models new_year) ann_store (ann\<lparr>account_id := Some 1\<rparr>) =
       Inl IntegrityError"
    by (simp add: session_add_commit_def has_key_def ann_store_def ann_row_def ann_def)
  have old: "find_record ann_store 1 = Some ann_row"
    by (simp add: find_record_def ann_store_def ann_row_def ann_def)
  from create_always_inserts [OF inv, of "import_models new_year" "ann\<lparr>account_id := Some 1\<rparr>"]
  obtain db' a' where
    c: "create (import_models new_year) ann_store (ann\<lparr>account_id := Some 1\<rparr>) = Inr (db', a')"
    and i: "account_id a' = Some (next_id ann_store)"
    and a: "all_records db' = all_records ann_store @ [a']"
    and f: "\<forall>j. j \<noteq> next_id ann_store \<longrightarrow> find_record db' j = find_record ann_store j"
    by blast
  have "account_id a' = Some 2" using i by (simp add: ann_store_def)
  moreover have "all_records db' = [ann_row, a']"
    using a by (simp add: all_records_def ann_store_def)
  moreover have "find_record db' 1 = Some ann_row"
    using f old by (simp add: ann_store_def)
  ultimately show ?thesis using inv refused c by blast
qed

text \<open>
  C8. After \<^verbatim>\<open>create\<close> on a transient object the object has a key, \<^verbatim>\<open>find\<close> with that key
  returns the stored record, and the record has the name, email, address and phone number
  of the object and its date of joining (the column default when the object had none).
\<close>

theorem create_then_find:
  assumes "store_inv db" and "account_id self = None"
  shows "\<exists>db' a' i. create sch db self = Inr (db', a') \<and> account_id a' = Some i \<and>
           find_record db' i = Some a' \<and>
           name a' = name self \<and> email a' = email self \<and> address a' = address self \<and>
           phone_number a' = phone_number self \<and>
           date_joined a' =
             Some (case date_joined self of None \<Rightarrow> date_joined_default sch | Some d \<Rightarrow> d)"
proof -
  have "find_record db (next_id db) = None"
    using store_inv_no_next[OF assms(1)] by (simp add: find_record_None_iff)
  then show ?thesis
    by (simp add: create_eq find_record_append)
qed

theorem create_then_find_witness:
  "store_inv ann_store \<and> account_id ann = None \<and>
   (\<exists>db' a'. create (import_models new_year) ann_store ann = Inr (db', a') \<and>
              find_record db' 2 = Some a' \<and> name a' = PStr ''Ann'')"
proof -
  have inv: "store_inv ann_store" by (rule store_inv_ann_store)
  have tr: "account_id ann = None" by (simp add: ann_def)
  from create_then_find [OF inv tr, of "import_models new_year"]
  obtain db' a' i where
    c: "create (import_models new_year) ann_store ann = Inr (db', a')"
    and i: "account_id a' = Some i" and f: "find_record db' i = Some a'"
    and n: "name a' = name ann"
    by blast
  have "i = 2" using c i by (auto simp: create_eq ann_store_def)
  then show ?thesis using inv tr c f n by (auto simp: ann_def)
qed

text \<open>
  C9. After \<^verbatim>\<open>delete\<close> on a persisted record, \<^verbatim>\<open>find\<close> with its key returns \<^verbatim>\<open>None\<close> (a
  value: \<^verbatim>\<open>find\<close> raises nothing), no row of \<^verbatim>\<open>all()\<close> has that key, the record is not among
  them, and every other key is found as before.
\<close>

theorem delete_then_find:
  assumes "find_record db i = Some self"
  shows "\<exists>db'. delete db self = Inr db' \<and> find_record db' i = None \<and>
           \<not> list_ex (\<lambda>r. account_id r = Some i) (all_records db') \<and>
           self \<notin> set (all_records db') \<and>
           (\<forall>j. j \<noteq> i \<longrightarrow> find_record db' j = find_record db j)"
proof -
  have k: "account_id self = Some i" using find_record_key[OF assms] by simp
  show ?thesis using k
    by (auto simp: delete_def find_record_def all_records_def list_ex_iff find_None_iff
                   find_filter_other)
qed

theorem delete_then_find_witness:
  "find_record ann_store 1 = Some ann_row \<and>
   (\<exists>db'. delete ann_store ann_row = Inr db' \<and> find_record db' 1 = None \<and>
          ann_row \<notin> set (all_records db'))"
proof -
  have p: "find_record ann_store 1 = Some ann_row"
    by (simp add: find_record_def ann_store_def ann_row_def ann_def)
  from delete_then_find [OF p] show ?thesis using p by blast
qed

text \<open>
  C6. The default of \<^verbatim>\<open>date_joined\<close> is the date of the import of the module. An account
  created without a date of joining is stored with that date, on whatever day \<^verbatim>\<open>create\<close>
  runs: \<^verbatim>\<open>create\<close> does not read the clock. Here the module was imported on 1 January 2024;
  \<^verbatim>\<open>deserialize\<close>, called on 5 March 2024 with no date in the input, sets 5 March, while
  \<^verbatim>\<open>create\<close> on an object without a date stores 1 January.
\<close>

theorem create_default_date_is_import_date:
  "create (import_models new_year) empty_store ann =
     Inr (\<lparr>rows = [ann_row], next_id = 2\<rparr>, ann_row) \<and>
   date_joined ann = None \<and> date_joined ann_row = Some \<lparr>year = 2024, month = 1, day = 1\<rparr> \<and>
   date_joined (snd (deserialize \<lparr>year = 2024, month = 3, day = 5\<rparr> Account
      (PDict [(''name'', PStr ''Ann''), (''email'', PStr ''ann@example.com''),
              (''address'', PStr ''1 Main St'')]))) =
     Some \<lparr>year = 2024, month = 3, day = 5\<rparr>"
  by (simp add: create_eq import_models_def empty_store_def ann_row_def ann_def new_year_def
                deserialize_def deserialize_try_def Account_def)

section \<open>The price query\<close>

lemma dropWhile_padding:
  assumes "\<forall>c \<in> set pre. P c" and "s \<noteq> []" and "\<not> P (hd s)"
  shows "dropWhile P (pre @ s) = s"
proof -
  have "dropWhile P (pre @ s) = dropWhile P s"
    using assms(1) by (simp add: dropWhile_append2)
  also have "\<dots> = s" using assms(2,3) by (cases s) simp_all
  finally show ?thesis .
qed

lemma strip_padding:
  assumes "\<forall>c \<in> set pre. P c" and "\<forall>c \<in> set post. P c"
      and "s \<noteq> []" and "\<not> P (hd s)" and "\<not> P (last s)"
  shows "strip P (pre @ s @ post) = s"
proof -
  have 1: "dropWhile P (pre @ (s @ post)) = s @ post"
    using assms(1,3,4) by (intro dropWhile_padding) simp_all
  have 2: "dropWhile P (rev post @ rev s) = rev s"
    using assms(2,3,5) by (intro dropWhile_padding) (simp_all add: hd_rev)
  show ?thesis by (simp add: strip_def 1 2)
qed

lemma Decimal_12_50: "Decimal ''12.50'' = Inr (Finite (Dec False 1250 (- 2)))"
  by code_simp

lemma find_by_price_12_50:
  "find_by_price hats (AsDecimal (Finite (Dec False 1250 (- 2)))) = Inr [hd hats]"
  by (simp add: find_by_price_def hats_def dec_eq_def dec_signed_def)

text \<open>
  C7, as stated, fails: white space other than the space, and quote characters other
  than the double quote, are not stripped. With a tab outside the double quotes, or with
  single quotes, around \<^verbatim>\<open>12.50\<close> the conversion raises \<open>InvalidOperation\<close>, while the decimal
  12.50 selects the product priced 12.5.
\<close>

theorem find_by_price_tab_or_single_quote_counterexample:
  "find_by_price hats (AsStr ([CHR 0x09, CHR 0x22] @ ''12.50'' @ [CHR 0x22, CHR 0x09])) =
     Inl InvalidOperation \<and>
   find_by_price hats (AsStr ([CHR 0x27] @ ''12.50'' @ [CHR 0x27])) = Inl InvalidOperation \<and>
   find_by_price hats (AsDecimal (Finite (Dec False 1250 (- 2)))) = Inr [hd hats]"
proof -
  have a: "find_by_price hats (AsStr ([CHR 0x09, CHR 0x22] @ ''12.50'' @ [CHR 0x22, CHR 0x09])) =
             Inl InvalidOperation"
    by code_simp
  have b: "find_by_price hats (AsStr ([CHR 0x27] @ ''12.50'' @ [CHR 0x27])) =
             Inl InvalidOperation"
    by code_simp
  show ?thesis using a b find_by_price_12_50 by simp
qed

text \<open>
  C7, amended. \<^verbatim>\<open>find_by_price\<close> takes a \<^verbatim>\<open>Decimal\<close> or a string. A string made of a text
  \<open>s\<close> with any run of spaces and double quotes before and after it is stripped down to
  \<open>s\<close> and converted, and the query is the one for the decimal that \<open>s\<close> denotes (or the
  conversion error of \<open>s\<close>). So the string \<^verbatim>\<open> "12.50" \<close> and the decimal 12.50 select the same
  products.
\<close>

theorem find_by_price_padded_string:
  assumes "list_all space_or_quote pre" and "list_all space_or_quote post"
      and "s \<noteq> []" and "\<not> space_or_quote (hd s)" and "\<not> space_or_quote (last s)"
  shows "find_by_price table (AsStr (pre @ s @ post)) =
           (case Decimal s of Inl e \<Rightarrow> Inl e | Inr d \<Rightarrow> find_by_price table (AsDecimal d))"
proof -
  have "strip space_or_quote (pre @ s @ post) = s"
    using assms by (intro strip_padding) (simp_all add: list_all_iff)
  then show ?thesis by (simp add: find_by_price_def split: sum.splits)
qed

theorem find_by_price_padded_string_witness:
  "list_all space_or_quote [CHR '' '', CHR 0x22] \<and> list_all space_or_quote [CHR 0x22, CHR '' ''] \<and>
   \<not> space_or_quote (hd ''12.50'') \<and> \<not> space_or_quote (last ''12.50'') \<and>
   find_by_price hats (AsStr ([CHR '' '', CHR 0x22] @ ''12.50'' @ [CHR 0x22, CHR '' ''])) =
     find_by_price hats (AsDecimal (Finite (Dec False 1250 (- 2)))) \<and>
   find_by_price hats (AsDecimal (Finite (Dec False 1250 (- 2)))) = Inr [hd hats]"
proof -
  have a: "list_all space_or_quote [CHR '' '', CHR 0x22]"
    and b: "list_all space_or_quote [CHR 0x22, CHR '' '']"
    and c: "''12.50'' \<noteq> []"
    and d: "\<not> space_or_quote (hd ''12.50'')" and e: "\<not> space_or_quote (last ''12.50'')"
    by (simp_all add: space_or_quote_def)
  from find_by_price_padded_string [OF a b c d e, of hats] show ?thesis
    using a b d e find_by_price_12_50 by (simp add: Decimal_12_50)
qed

section \<open>Serialization and the round trip\<close>

subsection \<open>Writing and reading a date\<close>

lemma digit_0: "digit 0 = CHR ''0''"
  by code_simp

lemma digit_value_digit: "digit_value (digit n) = n mod 10"
  by (simp add: digit_value_def digit_def)

lemma is_digit_digit: "is_digit (digit n)"
  by (simp add: is_digit_def digit_def)

lemma digits_of_lt10: "n < 10 \<Longrightarrow> digits_of n = [digit n]"
  by (simp add: digits_of.simps)

lemma digits_of_ge10: "10 \<le> n \<Longrightarrow> digits_of n = digits_of (n div 10) @ [digit n]"
  by (subst digits_of.simps) simp

lemma digits_of_lt100:
  "10 \<le> n \<Longrightarrow> n < 100 \<Longrightarrow> digits_of n = [digit (n div 10), digit n]"
  by (simp add: digits_of_ge10 digits_of_lt10)

lemma digits_of_lt1000:
  "100 \<le> n \<Longrightarrow> n < 1000 \<Longrightarrow> digits_of n = [digit (n div 100), digit (n div 10), digit n]"
  using digits_of_lt100[of "n div 10"]
  by (simp add: digits_of_ge10 div_mult2_eq[symmetric])

lemma digits_of_lt10000:
  "1000 \<le> n \<Longrightarrow> n < 10000 \<Longrightarrow>
   digits_of n = [digit (n div 1000), digit (n div 100), digit (n div 10), digit n]"
  using digits_of_lt1000[of "n div 10"]
  by (simp add: digits_of_ge10 div_mult2_eq[symmetric])

lemma zfill_2: "n < 100 \<Longrightarrow> zfill 2 (digits_of n) = [digit (n div 10), digit n]"
proof (cases "n < 10")
  case True
  then show ?thesis by (simp add: zfill_def digit_0 digits_of_lt10)
next
  case False
  assume "n < 100"
  with False show ?thesis by (simp add: zfill_def digits_of_lt100)
qed

lemma zfill_4_short:
  "zfill 4 [a] = [CHR ''0'', CHR ''0'', CHR ''0'', a]"
  "zfill 4 [a, b] = [CHR ''0'', CHR ''0'', a, b]"
  "zfill 4 [a, b, c] = [CHR ''0'', a, b, c]"
  "zfill 4 [a, b, c, e] = [a, b, c, e]"
  by (simp_all add: zfill_def eval_nat_numeral)

lemma zfill_4:
  assumes "n < 10000"
  shows "zfill 4 (digits_of n) =
           [digit (n div 1000), digit (n div 100), digit (n div 10), digit n]"
proof -
  consider "n < 10" | "10 \<le> n" "n < 100" | "100 \<le> n" "n < 1000" | "1000 \<le> n"
    by linarith
  then show ?thesis
  proof cases
    case 1
    then have "n div 10 = 0" "n div 100 = 0" "n div 1000 = 0" by simp_all
    then show ?thesis using 1 by (simp only: digits_of_lt10 zfill_4_short digit_0)
  next
    case 2
    then have "n div 100 = 0" "n div 1000 = 0" by simp_all
    then show ?thesis using 2 by (simp only: digits_of_lt100 zfill_4_short digit_0)
  next
    case 3
    then have "n div 1000 = 0" by simp
    then show ?thesis using 3 by (simp only: digits_of_lt1000 zfill_4_short digit_0)
  next
    case 4
    then show ?thesis using assms by (simp only: digits_of_lt10000 zfill_4_short)
  qed
qed

lemma number_of_2: "n < 100 \<Longrightarrow> number_of [digit (n div 10), digit n] = n"
  by (simp add: number_of_def digit_value_digit)

lemma decimal_expansion:
  fixes n :: nat
  shows "n = 1000 * (n div 1000) + 100 * (n div 100 mod 10) + 10 * (n div 10 mod 10) + n mod 10"
proof -
  have a: "n = 10 * (n div 10) + n mod 10" by simp
  have b: "n div 10 = 10 * (n div 100) + n div 10 mod 10"
    using mult_div_mod_eq[of 10 "n div 10"] by (simp add: div_mult2_eq[symmetric])
  have c: "n div 100 = 10 * (n div 1000) + n div 100 mod 10"
    using mult_div_mod_eq[of 10 "n div 100"] by (simp add: div_mult2_eq[symmetric])
  show ?thesis using a b c by linarith
qed

lemma number_of_4:
  assumes "n < 10000"
  shows "number_of [digit (n div 1000), digit (n div 100), digit (n div 10), digit n] = n"
proof -
  have "n div 1000 < 10" using assms by simp
  then have "n div 1000 mod 10 = n div 1000" by simp
  then have "number_of [digit (n div 1000), digit (n div 100), digit (n div 10), digit n] =
        1000 * (n div 1000) + 100 * (n div 100 mod 10) + 10 * (n div 10 mod 10) + n mod 10"
    by (simp add: number_of_def digit_value_digit)
  then show ?thesis using decimal_expansion[of n] by simp
qed

lemma valid_date_bounds:
  "valid_date d \<Longrightarrow> year d < 10000 \<and> month d < 100 \<and> day d < 100"
  by (auto simp: valid_date_def days_in_month_def split: if_splits)

lemma isoformat_chars:
  assumes "valid_date d"
  shows "isoformat d =
     [digit (year d div 1000), digit (year d div 100), digit (year d div 10), digit (year d),
      CHR ''-'', digit (month d div 10), digit (month d),
      CHR ''-'', digit (day d div 10), digit (day d)]"
  using valid_date_bounds[OF assms] by (simp add: isoformat_def zfill_4 zfill_2)

lemma iso_date_shape_isoformat:
  assumes "valid_date d"
  shows "iso_date_shape (isoformat d)"
  unfolding isoformat_chars[OF assms] iso_date_shape_def
  by (simp add: is_digit_digit)

lemma isoformat_nonempty: "valid_date d \<Longrightarrow> isoformat d \<noteq> []"
  by (simp add: isoformat_chars)

lemma date_eta: "\<lparr>year = year d, month = month d, day = day d\<rparr> = (d::date)"
  by simp

text \<open>Reading back what \<^verbatim>\<open>isoformat\<close> wrote gives the date.\<close>

lemma parse_isoformat:
  assumes "valid_date d"
  shows "parse_isoformat_date (isoformat d) = Inr d"
proof -
  have b: "year d < 10000" "month d < 100" "day d < 100"
    using valid_date_bounds[OF assms] by simp_all
  have "parse_isoformat_date (isoformat d) =
          (let d' = \<lparr>year = year d, month = month d, day = day d\<rparr>
           in if valid_date d' then Inr d' else Inl ValueError)"
    unfolding isoformat_chars[OF assms] parse_isoformat_date_def
    by (simp add: is_digit_digit number_of_4[OF b(1)] number_of_2[OF b(2)] number_of_2[OF b(3)])
  then show ?thesis using assms by (simp add: Let_def date_eta)
qed

lemma valid_date_new_year: "valid_date new_year"
  by (simp add: valid_date_def new_year_def days_in_month_def)

lemma isoformat_new_year: "isoformat new_year = ''2024-01-01''"
  by code_simp

subsection \<open>serialize\<close>

text \<open>
  C5, as stated, fails: an \<^verbatim>\<open>Account\<close> that was never given a date of joining (a new
  \<^verbatim>\<open>Account()\<close>, transient) has \<^verbatim>\<open>date_joined = None\<close>, and \<^verbatim>\<open>serialize\<close> raises
  \<open>AttributeError\<close> on \<^verbatim>\<open>self.date_joined.isoformat()\<close>.
\<close>

theorem serialize_without_date_counterexample:
  "account_id Account = None \<and> date_joined Account = None \<and>
   serialize Account = Inl (AttributeError (no_attribute PNone ''isoformat''))"
  by (simp add: serialize_def Account_def)

text \<open>
  C5, amended. For every \<^verbatim>\<open>Account\<close> whose \<^verbatim>\<open>date_joined\<close> is set, transient or persisted,
  \<^verbatim>\<open>serialize\<close> returns the mapping with the keys \<^verbatim>\<open>id\<close>, \<^verbatim>\<open>name\<close>, \<^verbatim>\<open>email\<close>, \<^verbatim>\<open>address\<close>,
  \<^verbatim>\<open>phone_number\<close> and \<^verbatim>\<open>date_joined\<close>, the last one a string of the shape \<^verbatim>\<open>YYYY-MM-DD\<close>
  that reads back as the date. \<^verbatim>\<open>serialize\<close> has no effect besides its result.
\<close>

theorem serialize_with_date:
  assumes "date_joined self = Some d" and "valid_date d"
  shows "serialize self =
           Inr [(''id'', case account_id self of None \<Rightarrow> PNone | Some i \<Rightarrow> PInt i),
                (''name'', name self), (''email'', email self), (''address'', address self),
                (''phone_number'', phone_number self),
                (''date_joined'', PStr (isoformat d))] \<and>
         iso_date_shape (isoformat d) \<and> parse_isoformat_date (isoformat d) = Inr d"
  using assms by (simp add: serialize_def iso_date_shape_isoformat parse_isoformat)

theorem serialize_with_date_witness:
  "date_joined ann_row = Some new_year \<and> valid_date new_year \<and>
   serialize ann_row =
     Inr [(''id'', PInt 1), (''name'', PStr ''Ann''), (''email'', PStr ''ann@example.com''),
          (''address'', PStr ''1 Main St''), (''phone_number'', PNone),
          (''date_joined'', PStr ''2024-01-01'')] \<and>
   iso_date_shape ''2024-01-01''"
proof -
  have h: "date_joined ann_row = Some new_year" by (simp add: ann_row_def)
  from serialize_with_date [OF h valid_date_new_year] show ?thesis
    using h valid_date_new_year by (simp add: isoformat_new_year ann_row_def ann_def)
qed

text \<open>Every record in a store that satisfies the invariant has its date, so it serializes.\<close>

lemma stored_record_has_date:
  "store_inv db \<Longrightarrow> find_record db i = Some r \<Longrightarrow> \<exists>d. date_joined r = Some d"
  using find_record_key[of db i r] by (auto simp: store_inv_iff)

subsection \<open>deserialize after serialize\<close>

text \<open>
  C2. For an \<^verbatim>\<open>Account\<close> \<open>x\<close> with its date of joining set, \<^verbatim>\<open>serialize\<close> puts the date in the
  mapping, and \<^verbatim>\<open>deserialize\<close> of that mapping returns without error and leaves the
  receiving object with the name, email, address, phone number and date of joining of \<open>x\<close>
  (its \<^verbatim>\<open>id\<close> is not touched). Without the key \<^verbatim>\<open>date_joined\<close> in the mapping the other four
  attributes still agree and the date is the day of the call.
\<close>

theorem deserialize_serialize_roundtrip:
  assumes "date_joined x = Some d" and "valid_date d"
  shows "\<exists>m. serialize x = Inr m \<and>
           map_of m ''date_joined'' = Some (PStr (isoformat d)) \<and>
           deserialize today self (PDict m) =
             (None, self\<lparr>name := name x, email := email x, address := address x,
                         phone_number := phone_number x, date_joined := date_joined x\<rparr>) \<and>
           deserialize today self (PDict (filter (\<lambda>kv. fst kv \<noteq> ''date_joined'') m)) =
             (None, self\<lparr>name := name x, email := email x, address := address x,
                         phone_number := phone_number x, date_joined := Some today\<rparr>)"
  using assms
  by (simp add: serialize_def deserialize_def deserialize_try_def Let_def parse_isoformat
                isoformat_nonempty)

theorem deserialize_serialize_roundtrip_witness:
  "date_joined ann_row = Some new_year \<and> valid_date new_year \<and>
   (\<exists>m. serialize ann_row = Inr m \<and>
        deserialize \<lparr>year = 2024, month = 3, day = 5\<rparr> Account (PDict m) =
          (None, ann_row\<lparr>account_id := None\<rparr>))"
proof -
  have h: "date_joined ann_row = Some new_year" by (simp add: ann_row_def)
  have e: "Account\<lparr>name := name ann_row, email := email ann_row, address := address ann_row,
                   phone_number := phone_number ann_row, date_joined := date_joined ann_row\<rparr> =
           ann_row\<lparr>account_id := None\<rparr>"
    by (simp add: Account_def ann_row_def ann_def)
  from deserialize_serialize_roundtrip
         [OF h valid_date_new_year, of "\<lparr>year = 2024, month = 3, day = 5\<rparr>" Account]
  show ?thesis using h valid_date_new_year unfolding e by blast
qed

end
